theory Spec2Isabelle
  imports Main "HOL-Library.Word"
begin

section \<open>Data model\<close>

text \<open>
  The Kubernetes objects the controller reads, reduced to the fields the code touches.
  Go's \<open>int32\<close> is a 32-bit word compared as a signed number; a pointer that may be
  \<open>nil\<close> is an \<open>option\<close>; a Go error value is a \<open>go_error\<close>.
\<close>

type_synonym int32 = "32 word"

record DeploymentCondition =
  Type :: string
  Status :: string
  Reason :: string
  Message :: string
  LastTransitionTime :: nat

record Container =
  ctr_Name :: string
  Requests :: "(string \<times> string) list option"
  Limits :: "(string \<times> string) list option"

record Deployment =
  Name :: string
  Namespace :: string
  ResourceVersion :: string
  Spec_Replicas :: "int32 option"
  Spec_Containers :: "Container list"
  Status_Replicas :: int32
  Status_ReadyReplicas :: int32
  Status_AvailableReplicas :: int32
  Status_UpdatedReplicas :: int32
  Status_Conditions :: "DeploymentCondition list"

datatype StatusReason =
    StatusReasonNotFound
  | StatusReasonConflict
  | StatusReasonForbidden
  | StatusReasonTimeout
  | StatusReasonUnknown

datatype go_error =
    ErrorString string
  | Wrapped string go_error
  | StatusError StatusReason string

section \<open>The deployment reconciler (pkg/ctrl/deployment\_controller.go)\<close>

text \<open>
  Every zerolog statement of the reconciler is one constructor, carrying the fields the
  statement logs, in the order of the source.
\<close>

datatype ctrl_log =
    ReconcilingLog string string
  | DeletedLog string string
  | FetchFailedLog go_error string string
  | DeploymentStatusLog string string int32 int32 int32 int32 int32
  | ScalingUpLog string string int32 int32
  | ScalingDownLog string string int32 int32
  | ConditionLog string string string string string string nat
  | ContainerResourcesLog string string string
      "(string \<times> string) list option" "(string \<times> string) list option"

text \<open>Lines 51-54: the desired replica count is 0 when \<open>Spec.Replicas\<close> is nil.\<close>

definition desiredReplicas :: "Deployment \<Rightarrow> int32" where
  "desiredReplicas deployment =
     (case Spec_Replicas deployment of None \<Rightarrow> 0 | Some r \<Rightarrow> r)"

text \<open>Lines 72-89: the scaling check, on signed 32-bit values.\<close>

definition scaling_logs :: "Deployment \<Rightarrow> ctrl_log list" where
  "scaling_logs deployment =
     (let currentReplicas = Status_Replicas deployment;
          desired = desiredReplicas deployment
      in if currentReplicas \<noteq> desired then
           (if currentReplicas <s desired then
              [ScalingUpLog (Namespace deployment) (Name deployment) currentReplicas desired]
            else if desired <s currentReplicas then
              [ScalingDownLog (Namespace deployment) (Name deployment) currentReplicas desired]
            else [])
         else [])"

text \<open>Lines 91-102: one record per condition, in the order of \<open>Status.Conditions\<close>.\<close>

definition condition_log :: "Deployment \<Rightarrow> DeploymentCondition \<Rightarrow> ctrl_log" where
  "condition_log deployment condition =
     ConditionLog (Namespace deployment) (Name deployment) (Type condition)
       (Status condition) (Reason condition) (Message condition)
       (LastTransitionTime condition)"

definition condition_logs :: "Deployment \<Rightarrow> ctrl_log list" where
  "condition_logs deployment = map (condition_log deployment) (Status_Conditions deployment)"

text \<open>Lines 104-117: containers that declare requests or limits.\<close>

fun container_logs :: "Deployment \<Rightarrow> Container list \<Rightarrow> ctrl_log list" where
  "container_logs deployment [] = []"
| "container_logs deployment (container # rest) =
     (if Requests container \<noteq> None \<or> Limits container \<noteq> None then
        [ContainerResourcesLog (Namespace deployment) (Name deployment) (ctr_Name container)
           (Requests container) (Limits container)]
      else []) @ container_logs deployment rest"

definition logDeploymentEvent :: "Deployment \<Rightarrow> ctrl_log list" where
  "logDeploymentEvent deployment =
     [DeploymentStatusLog (Namespace deployment) (Name deployment)
        (desiredReplicas deployment) (Status_Replicas deployment)
        (Status_ReadyReplicas deployment) (Status_AvailableReplicas deployment)
        (Status_UpdatedReplicas deployment)]
     @ scaling_logs deployment
     @ condition_logs deployment
     @ (if length (Spec_Containers deployment) > 0
        then container_logs deployment (Spec_Containers deployment) else [])"

text \<open>
  \<open>apierrors.IsNotFound\<close> and controller-runtime's \<open>client.IgnoreNotFound\<close>: the
  latter returns nil for a not-found error and the error itself otherwise. Wrapped errors
  are unwrapped, as \<open>errors.As\<close> does.
\<close>

fun IsNotFound :: "go_error \<Rightarrow> bool" where
  "IsNotFound (StatusError reason msg) = (reason = StatusReasonNotFound)"
| "IsNotFound (Wrapped msg err) = IsNotFound err"
| "IsNotFound (ErrorString msg) = False"

definition IgnoreNotFound :: "go_error option \<Rightarrow> go_error option" where
  "IgnoreNotFound err =
     (case err of None \<Rightarrow> None
      | Some e \<Rightarrow> if IsNotFound e then None else Some e)"

record NamespacedName =
  nn_Namespace :: string
  nn_Name :: string

record Result =
  Requeue :: bool
  RequeueAfter :: int

definition empty_Result :: Result where
  "empty_Result = \<lparr>Requeue = False, RequeueAfter = 0\<rparr>"

text \<open>
  The reconciler's embedded client is its \<open>Get\<close> method: for a key, either the error
  the API returned or the deployment fetched.
\<close>

record DeploymentReconciler =
  Get :: "NamespacedName \<Rightarrow> go_error + Deployment"

record reconcile_outcome =
  logs :: "ctrl_log list"
  result :: Result
  err :: "go_error option"

definition Reconcile :: "DeploymentReconciler \<Rightarrow> NamespacedName \<Rightarrow> reconcile_outcome" where
  "Reconcile r req =
     (let entry = [ReconcilingLog (nn_Namespace req) (nn_Name req)]
      in case Get r \<lparr>nn_Namespace = nn_Namespace req, nn_Name = nn_Name req\<rparr> of
           Inl e \<Rightarrow>
             if IgnoreNotFound (Some e) = None then
               \<lparr>logs = entry @ [DeletedLog (nn_Namespace req) (nn_Name req)],
                result = empty_Result, err = None\<rparr>
             else
               \<lparr>logs = entry @ [FetchFailedLog e (nn_Namespace req) (nn_Name req)],
                result = empty_Result, err = Some e\<rparr>
         | Inr deployment \<Rightarrow>
             \<lparr>logs = entry @ logDeploymentEvent deployment,
              result = empty_Result, err = None\<rparr>)"

subsection \<open>Signals among the reconciler's log records\<close>

text \<open>
  The scaling records and the condition records are the derived signals of the
  reconciler; the status summary and the container resources are plain reports.
\<close>

fun is_scale_signal :: "ctrl_log \<Rightarrow> bool" where
  "is_scale_signal (ScalingUpLog ns n f t) = True"
| "is_scale_signal (ScalingDownLog ns n f t) = True"
| "is_scale_signal other = False"

fun is_condition_signal :: "ctrl_log \<Rightarrow> bool" where
  "is_condition_signal (ConditionLog ns n ty st re me ti) = True"
| "is_condition_signal other = False"

definition scale_signals :: "ctrl_log list \<Rightarrow> ctrl_log list" where
  "scale_signals ls = filter is_scale_signal ls"

definition condition_signals :: "ctrl_log list \<Rightarrow> ctrl_log list" where
  "condition_signals ls = filter is_condition_signal ls"

definition derived_signals :: "ctrl_log list \<Rightarrow> ctrl_log list" where
  "derived_signals ls = filter (\<lambda>l. is_scale_signal l \<or> is_condition_signal l) ls"

fun condition_type_of :: "ctrl_log \<Rightarrow> string option" where
  "condition_type_of (ConditionLog ns n ty st re me ti) = Some ty"
| "condition_type_of other = None"

definition condition_signal_types :: "ctrl_log list \<Rightarrow> string list" where
  "condition_signal_types ls = List.map_filter condition_type_of ls"

subsection \<open>The specification's condition rule\<close>

text \<open>
  Rule (3) of the specification's classifier, in its own words: a condition of the new
  snapshot is reported when no condition of the same type exists in the old snapshot, or
  when the (status, reason) pair of that old condition differs.
\<close>

definition spec_condition_changed :: "DeploymentCondition list \<Rightarrow> DeploymentCondition \<Rightarrow> bool" where
  "spec_condition_changed old_conditions c =
     (case find (\<lambda>oc. Type oc = Type c) old_conditions of
        None \<Rightarrow> True
      | Some oc \<Rightarrow> (Status oc, Reason oc) \<noteq> (Status c, Reason c))"

definition spec_ConditionChanged_types :: "Deployment \<Rightarrow> Deployment \<Rightarrow> string list" where
  "spec_ConditionChanged_types old new =
     map Type (filter (spec_condition_changed (Status_Conditions old)) (Status_Conditions new))"

subsection \<open>Example snapshots\<close>

definition available_condition :: DeploymentCondition where
  "available_condition =
     \<lparr>Type = ''Available'', Status = ''True'', Reason = ''MinimumReplicasAvailable'',
      Message = ''Deployment has minimum availability.'', LastTransitionTime = 0\<rparr>"

definition example_deployment :: "string \<Rightarrow> int32 \<Rightarrow> int32 \<Rightarrow> DeploymentCondition list \<Rightarrow> Deployment" where
  "example_deployment version desired current conditions =
     \<lparr>Name = ''web'', Namespace = ''default'', ResourceVersion = version,
      Spec_Replicas = Some desired, Spec_Containers = [],
      Status_Replicas = current, Status_ReadyReplicas = current,
      Status_AvailableReplicas = current, Status_UpdatedReplicas = current,
      Status_Conditions = conditions\<rparr>"

section \<open>The informer (pkg/informer/informer.go)\<close>

subsection \<open>Values passed through \<open>interface{}\<close>\<close>

text \<open>
  The handlers and the store receive \<open>interface{}\<close> values: the nil interface, a
  pointer to a Deployment or to a Pod (the pointer itself may be nil), a tombstone
  wrapping another value, or a value of some other type. An unchecked type assertion on
  the wrong dynamic type and a field read through a nil pointer both panic.
\<close>

record Pod =
  pod_Name :: string
  pod_Namespace :: string
  pod_Phase :: string

datatype obj =
    NilInterface
  | DeploymentPtr "Deployment option"
  | PodPtr "Pod option"
  | DeletedFinalStateUnknown string obj
  | OtherObj string

datatype go_panic = InterfaceConversion | NilPointerDereference

subsection \<open>The package-level informers and the cached names\<close>

record SharedIndexInformer =
  store :: "obj list"

record informer_globals =
  deploymentInformer :: "SharedIndexInformer option"
  podInformer :: "SharedIndexInformer option"

text \<open>Lines 126-130: the loop appending the name of every Deployment of the store.\<close>

fun deployment_names :: "obj list \<Rightarrow> string list \<Rightarrow> go_panic + string list" where
  "deployment_names [] names = Inr names"
| "deployment_names (x # rest) names =
     (case x of
        DeploymentPtr p \<Rightarrow>
          (case p of
             None \<Rightarrow> Inl NilPointerDereference
           | Some d \<Rightarrow> deployment_names rest (names @ [Name d]))
      | other \<Rightarrow> deployment_names rest names)"

definition GetDeploymentNames :: "informer_globals \<Rightarrow> go_panic + string list" where
  "GetDeploymentNames g =
     (case deploymentInformer g of
        None \<Rightarrow> Inr []
      | Some informer \<Rightarrow> deployment_names (store informer) [])"

fun pod_names :: "obj list \<Rightarrow> string list \<Rightarrow> go_panic + string list" where
  "pod_names [] names = Inr names"
| "pod_names (x # rest) names =
     (case x of
        PodPtr p \<Rightarrow>
          (case p of
             None \<Rightarrow> Inl NilPointerDereference
           | Some pod \<Rightarrow> pod_names rest (names @ [pod_Name pod]))
      | other \<Rightarrow> pod_names rest names)"

definition GetPodNames :: "informer_globals \<Rightarrow> go_panic + string list" where
  "GetPodNames g =
     (case podInformer g of
        None \<Rightarrow> Inr []
      | Some informer \<Rightarrow> pod_names (store informer) [])"

subsection \<open>The update handler of \<open>DeploymentInformer\<close>\<close>

datatype informer_log =
    UsingInClusterLog
  | UsingKubeconfigLog string
  | StartingInformerLog string
  | WaitingForSyncLog
  | SyncedLog
  | StoppingLog
  | StartingDeploymentInformerLog
  | SyncFailedLog string
  | SyncedWatchingLog
  | AddLog string string int32
  | UpdateLog string string int32 int32 int32 string string




subsection \<open>Constructing a \<open>DeploymentInformer\<close>\<close>

text \<open>
  The client libraries are the environment of the constructor: what
  \<open>rest.InClusterConfig\<close>, \<open>clientcmd.BuildConfigFromFlags\<close> and
  \<open>kubernetes.NewForConfig\<close> answer. Each call the constructor makes is recorded, so
  that the number of attempts can be read off the result.
\<close>

record rest_Config =
  Host :: string

record Clientset =
  cs_config :: rest_Config

record kube_env =
  InClusterConfig :: "go_error + rest_Config"
  BuildConfigFromFlags :: "string \<Rightarrow> string \<Rightarrow> go_error + rest_Config"
  NewForConfig :: "rest_Config \<Rightarrow> go_error + Clientset"

datatype env_call =
    CallInClusterConfig
  | CallBuildConfigFromFlags string string
  | CallNewForConfig rest_Config

text \<open>\<open>time.Duration\<close> counts nanoseconds.\<close>

definition Second :: int where
  "Second = 1000000000"

record InformerConfig =
  Kubeconfig :: string
  InCluster :: bool
  cfg_Namespace :: string
  ResyncTime :: int

record DeploymentInformer =
  clientset :: Clientset
  factory_resync :: int
  factory_namespace :: string
  stopCh_closed :: bool
  namespace :: string

record constructed =
  made_logs :: "informer_log list"
  made_calls :: "env_call list"
  made :: "go_error + DeploymentInformer"

text \<open>Lines 188-237.\<close>

definition NewDeploymentInformer :: "kube_env \<Rightarrow> InformerConfig \<Rightarrow> constructed" where
  "NewDeploymentInformer env config =
     (let auth =
        (if InCluster config then
           ([UsingInClusterLog], [CallInClusterConfig],
            (case InClusterConfig env of
               Inl e \<Rightarrow> Inl (Wrapped ''failed to get in-cluster config'' e)
             | Inr kubeConfig \<Rightarrow> Inr kubeConfig))
         else if Kubeconfig config \<noteq> [] then
           ([UsingKubeconfigLog (Kubeconfig config)],
            [CallBuildConfigFromFlags [] (Kubeconfig config)],
            (case BuildConfigFromFlags env [] (Kubeconfig config) of
               Inl e \<Rightarrow> Inl (Wrapped ''failed to build config from kubeconfig'' e)
             | Inr kubeConfig \<Rightarrow> Inr kubeConfig))
         else
           ([], [],
            Inl (ErrorString ''either kubeconfig path or in-cluster mode must be specified'')))
      in case auth of
           (ls, calls, Inl e) \<Rightarrow> \<lparr>made_logs = ls, made_calls = calls, made = Inl e\<rparr>
         | (ls, calls, Inr kubeConfig) \<Rightarrow>
             (case NewForConfig env kubeConfig of
                Inl e \<Rightarrow>
                  \<lparr>made_logs = ls, made_calls = calls @ [CallNewForConfig kubeConfig],
                   made = Inl (Wrapped ''failed to create clientset'' e)\<rparr>
              | Inr cs \<Rightarrow>
                  \<lparr>made_logs = ls, made_calls = calls @ [CallNewForConfig kubeConfig],
                   made = Inr \<lparr>clientset = cs,
                     factory_resync =
                       (if ResyncTime config = 0 then 30 * Second else ResyncTime config),
                     factory_namespace = cfg_Namespace config,
                     stopCh_closed = False,
                     namespace = cfg_Namespace config\<rparr>\<rparr>))"

subsection \<open>Starting an informer and waiting for its cache\<close>

text \<open>
  The run of an informer start depends on two logical instants: the one at which the
  informer's \<open>HasSynced\<close> turns true and the one at which the context is cancelled;
  either may never come. \<open>cache.WaitForCacheSync\<close> polls until one of them has come:
  it answers true when the cache has synced no later than the cancellation, false when
  the cancellation came first, and does not return when neither ever comes.
\<close>

record sync_env =
  synced_at :: "nat option"
  cancelled_at :: "nat option"
  add_handler_error :: "go_error option"

definition WaitForCacheSync :: "sync_env \<Rightarrow> bool option" where
  "WaitForCacheSync env =
     (case cancelled_at env of
        None \<Rightarrow> (case synced_at env of None \<Rightarrow> None | Some s \<Rightarrow> Some True)
      | Some c \<Rightarrow> (case synced_at env of None \<Rightarrow> Some False | Some s \<Rightarrow> Some (s \<le> c)))"

datatype 'a outcome = Returned 'a | Exited int | BlockedForever

record started =
  start_logs :: "informer_log list"
  start_outcome :: "go_error option outcome"
  start_informer :: DeploymentInformer

text \<open>Lines 240-318, the method of \<open>DeploymentInformer\<close>.\<close>

definition DeploymentInformer_StartDeploymentInformer ::
    "sync_env \<Rightarrow> DeploymentInformer \<Rightarrow> started" where
  "DeploymentInformer_StartDeploymentInformer env di =
     (let l0 = [StartingInformerLog (namespace di)]
      in case add_handler_error env of
           Some e \<Rightarrow>
             \<lparr>start_logs = l0,
              start_outcome = Returned (Some (Wrapped ''failed to add event handler'' e)),
              start_informer = di\<rparr>
         | None \<Rightarrow>
             (case WaitForCacheSync env of
                None \<Rightarrow>
                  \<lparr>start_logs = l0 @ [WaitingForSyncLog], start_outcome = BlockedForever,
                   start_informer = di\<rparr>
              | Some ok \<Rightarrow>
                  if \<not> ok then
                    \<lparr>start_logs = l0 @ [WaitingForSyncLog],
                     start_outcome = Returned (Some (ErrorString ''failed to sync informer cache'')),
                     start_informer = di\<rparr>
                  else
                    (case cancelled_at env of
                       None \<Rightarrow>
                         \<lparr>start_logs = l0 @ [WaitingForSyncLog, SyncedLog],
                          start_outcome = BlockedForever, start_informer = di\<rparr>
                     | Some c \<Rightarrow>
                         \<lparr>start_logs = l0 @ [WaitingForSyncLog, SyncedLog, StoppingLog],
                          start_outcome = Returned None,
                          start_informer = di\<lparr>stopCh_closed := True\<rparr>\<rparr>)))"

text \<open>
  Lines 24-57, the package-level function. The factory has one informer, so
  \<open>factory.WaitForCacheSync\<close> answers a map with one entry, keyed by the Deployment
  type; the loop over it exits the process with status 1 at the first entry that did not
  sync.
\<close>

definition factory_WaitForCacheSync :: "sync_env \<Rightarrow> (string \<times> bool) list option" where
  "factory_WaitForCacheSync env =
     (case WaitForCacheSync env of
        None \<Rightarrow> None
      | Some ok \<Rightarrow> Some [(''*v1.Deployment'', ok)])"

fun check_synced :: "(string \<times> bool) list \<Rightarrow> informer_log list \<times> int option" where
  "check_synced [] = ([], None)"
| "check_synced ((t, ok) # rest) =
     (if \<not> ok then ([SyncFailedLog t], Some 1) else check_synced rest)"

record started_global =
  global_logs :: "informer_log list"
  global_outcome :: "unit outcome"
  globals :: informer_globals

definition StartDeploymentInformer ::
    "sync_env \<Rightarrow> obj list \<Rightarrow> informer_globals \<Rightarrow> started_global" where
  "StartDeploymentInformer env listed g =
     (let g' = g\<lparr>deploymentInformer := Some \<lparr>store = listed\<rparr>\<rparr>;
          l0 = [StartingDeploymentInformerLog]
      in case factory_WaitForCacheSync env of
           None \<Rightarrow> \<lparr>global_logs = l0, global_outcome = BlockedForever, globals = g'\<rparr>
         | Some synced \<Rightarrow>
             (case check_synced synced of
                (ls, Some code) \<Rightarrow>
                  \<lparr>global_logs = l0 @ ls, global_outcome = Exited code, globals = g'\<rparr>
              | (ls, None) \<Rightarrow>
                  (case cancelled_at env of
                     None \<Rightarrow>
                       \<lparr>global_logs = l0 @ ls @ [SyncedWatchingLog], global_outcome = BlockedForever,
                        globals = g'\<rparr>
                   | Some c \<Rightarrow>
                       \<lparr>global_logs = l0 @ ls @ [SyncedWatchingLog], global_outcome = Returned (),
                        globals = g'\<rparr>)))"

section \<open>The commands (cmd/server.go, cmd/list.go)\<close>

subsection \<open>The /deployments handler\<close>

record http_response =
  StatusCode :: nat
  headers :: "(string \<times> string) list"
  body :: string

datatype server_log =
    DeploymentsRequestLog string
  | DeploymentsLog string "string list"
  | DefaultRequestLog string

record handled =
  handler_logs :: "server_log list"
  response :: "go_panic + http_response"

text \<open>
  Lines 99-106 of the first server: every name between double quotes, a comma after each
  but the last. The comparison \<open>i < len(deployments)-1\<close> is on Go's signed \<open>int\<close>.
\<close>

fun write_names :: "string list \<Rightarrow> nat \<Rightarrow> nat \<Rightarrow> string" where
  "write_names [] i n = []"
| "write_names (name # rest) i n =
     [CHR 0x22] @ name @ [CHR 0x22]
     @ (if int i < int n - 1 then '','' else [])
     @ write_names rest (Suc i) n"

text \<open>
  Lines 87-113. The request id is a fresh UUID, taken as an input; a response that sets
  no status code is sent with fasthttp's default, 200.
\<close>

definition handler :: "informer_globals \<Rightarrow> string \<Rightarrow> string \<Rightarrow> handled" where
  "handler g requestID path =
     (if path = ''/deployments'' then
        (case GetDeploymentNames g of
           Inl p \<Rightarrow>
             \<lparr>handler_logs = [DeploymentsRequestLog requestID], response = Inl p\<rparr>
         | Inr deployments \<Rightarrow>
             \<lparr>handler_logs = [DeploymentsRequestLog requestID,
                              DeploymentsLog requestID deployments],
              response =
                Inr \<lparr>StatusCode = 200,
                     headers = [(''X-Request-ID'', requestID),
                                (''Content-Type'', ''application/json'')],
                     body = ''['' @ write_names deployments 0 (length deployments) @ '']''\<rparr>\<rparr>)
      else
        \<lparr>handler_logs = [DefaultRequestLog requestID],
         response =
           Inr \<lparr>StatusCode = 200, headers = [(''X-Request-ID'', requestID)],
                body = ''Hello from FastHTTP!''\<rparr>\<rparr>)"

subsection \<open>Resolving the kubeconfig path\<close>

text \<open>
  The process environment maps variable names to values; \<open>os.Getenv\<close> answers the
  empty string for an unset variable. On Unix \<open>homedir.HomeDir\<close> is the value of HOME.
\<close>

type_synonym environ = "string \<Rightarrow> string option"

definition Getenv :: "environ \<Rightarrow> string \<Rightarrow> string" where
  "Getenv env k = (case env k of None \<Rightarrow> [] | Some v \<Rightarrow> v)"

definition HomeDir :: "environ \<Rightarrow> string" where
  "HomeDir env = Getenv env ''HOME''"

text \<open>
  \<open>filepath.Join\<close> on Unix: the elements from the first non-empty one on are joined
  with slashes and the result is cleaned (\<open>filepath.Clean\<close>: empty and \<open>.\<close>
  elements dropped, \<open>..\<close> cancelling the element before it, a rooted path keeping its
  leading slash, the empty result written \<open>.\<close>).
\<close>

fun split_on :: "char \<Rightarrow> string \<Rightarrow> string list" where
  "split_on c [] = [[]]"
| "split_on c (x # xs) =
     (if x = c then [] # split_on c xs
      else (case split_on c xs of
              [] \<Rightarrow> [[x]]
            | w # ws \<Rightarrow> (x # w) # ws))"

fun strings_Join :: "string list \<Rightarrow> string \<Rightarrow> string" where
  "strings_Join [] sep = []"
| "strings_Join [e] sep = e"
| "strings_Join (e # es) sep = e @ sep @ strings_Join es sep"

fun clean_elements :: "bool \<Rightarrow> string list \<Rightarrow> string list \<Rightarrow> string list" where
  "clean_elements rooted kept [] = rev kept"
| "clean_elements rooted kept (e # es) =
     (if e = [] \<or> e = ''.'' then clean_elements rooted kept es
      else if e = ''..'' then
        (case kept of
           [] \<Rightarrow> if rooted then clean_elements rooted [] es
                 else clean_elements rooted [''..''] es
         | k # ks \<Rightarrow> if k = ''..'' then clean_elements rooted (e # kept) es
                     else clean_elements rooted ks es)
      else clean_elements rooted (e # kept) es)"

definition Clean :: "string \<Rightarrow> string" where
  "Clean path =
     (if path = [] then ''.''
      else
        (let rooted = (hd path = CHR ''/'');
             out = (if rooted then ''/'' else [])
                   @ strings_Join (clean_elements rooted [] (split_on (CHR ''/'') path)) ''/''
         in if out = [] then ''.'' else out))"

fun filepath_Join :: "string list \<Rightarrow> string" where
  "filepath_Join [] = []"
| "filepath_Join (e # es) =
     (if e \<noteq> [] then Clean (strings_Join (e # es) ''/'') else filepath_Join es)"

text \<open>cmd/list.go, lines 142-153.\<close>

definition getKubeconfigPath :: "string \<Rightarrow> environ \<Rightarrow> string" where
  "getKubeconfigPath kubeconfig env =
     (if kubeconfig \<noteq> [] then kubeconfig
      else if Getenv env ''KUBECONFIG'' \<noteq> [] then Getenv env ''KUBECONFIG''
      else if HomeDir env \<noteq> [] then filepath_Join [HomeDir env, ''.kube'', ''config'']
      else [])"

text \<open>cmd/server.go (second server), lines 308-323: the chain runs only outside a
  cluster.\<close>

definition getInformerKubeconfigPath :: "bool \<Rightarrow> string \<Rightarrow> environ \<Rightarrow> string" where
  "getInformerKubeconfigPath informerInCluster informerKubeconfig env =
     (if \<not> informerInCluster then
        (if informerKubeconfig \<noteq> [] then informerKubeconfig
         else if Getenv env ''KUBECONFIG'' \<noteq> [] then Getenv env ''KUBECONFIG''
         else if HomeDir env \<noteq> [] then filepath_Join [HomeDir env, ''.kube'', ''config'']
         else [])
      else [])"

definition example_environ :: "string \<Rightarrow> string \<Rightarrow> environ" where
  "example_environ kubeconfig_var home =
     (\<lambda>k. if k = ''KUBECONFIG'' \<and> kubeconfig_var \<noteq> [] then Some kubeconfig_var
          else if k = ''HOME'' \<and> home \<noteq> [] then Some home
          else None)"

text \<open>
  A home directory written the usual way: rooted, with at least one element, and no
  empty, \<open>.\<close> or \<open>..\<close> element (so no doubled or trailing slash).
\<close>

definition plain_element :: "string \<Rightarrow> bool" where
  "plain_element e = (e \<noteq> [] \<and> e \<noteq> ''.'' \<and> e \<noteq> ''..'')"

definition plain_home :: "string \<Rightarrow> bool" where
  "plain_home h =
     (case split_on (CHR ''/'') h of
        [] \<Rightarrow> False
      | first # es \<Rightarrow> first = [] \<and> es \<noteq> [] \<and> list_all plain_element es)"

section \<open>Example environments\<close>

text \<open>A workstation: no service account, one kubeconfig file that loads.\<close>

definition workstation_env :: kube_env where
  "workstation_env =
     \<lparr>InClusterConfig = Inl (ErrorString ''unable to load in-cluster configuration''),
      BuildConfigFromFlags =
        (\<lambda>masterUrl path.
           if path = ''/home/dev/.kube/config'' then Inr \<lparr>Host = ''https://127.0.0.1:6443''\<rparr>
           else Inl (ErrorString ''no such file or directory'')),
      NewForConfig = (\<lambda>c. Inr \<lparr>cs_config = c\<rparr>)\<rparr>"

text \<open>A pod of the cluster: the service account is mounted.\<close>

definition pod_env :: kube_env where
  "pod_env =
     \<lparr>InClusterConfig = Inr \<lparr>Host = ''https://10.96.0.1:443''\<rparr>,
      BuildConfigFromFlags = (\<lambda>masterUrl path. Inl (ErrorString ''no such file or directory'')),
      NewForConfig = (\<lambda>c. Inr \<lparr>cs_config = c\<rparr>)\<rparr>"

definition example_config :: "string \<Rightarrow> bool \<Rightarrow> InformerConfig" where
  "example_config path in_cluster =
     \<lparr>Kubeconfig = path, InCluster = in_cluster, cfg_Namespace = ''default'', ResyncTime = 0\<rparr>"

definition example_informer :: DeploymentInformer where
  "example_informer =
     \<lparr>clientset = \<lparr>cs_config = \<lparr>Host = ''https://127.0.0.1:6443''\<rparr>\<rparr>,
      factory_resync = 30 * Second, factory_namespace = ''default'',
      stopCh_closed = False, namespace = ''default''\<rparr>"

definition no_informers :: informer_globals where
  "no_informers = \<lparr>deploymentInformer = None, podInformer = None\<rparr>"

section \<open>Helper lemmas on the reconciler's log\<close>

lemma scale_signals_scaling_logs: "filter is_scale_signal (scaling_logs d) = scaling_logs d"
  by (simp add: scaling_logs_def Let_def)

lemma scale_signals_condition_logs: "filter is_scale_signal (condition_logs d) = []"
  by (simp add: condition_logs_def condition_log_def filter_empty_conv)

lemma scale_signals_container_logs: "filter is_scale_signal (container_logs d cs) = []"
  by (induction cs) simp_all

lemma condition_signals_scaling_logs: "filter is_condition_signal (scaling_logs d) = []"
  by (simp add: scaling_logs_def Let_def)

lemma condition_signals_condition_logs:
  "filter is_condition_signal (condition_logs d) = condition_logs d"
  by (simp add: condition_logs_def condition_log_def)

lemma condition_signals_container_logs: "filter is_condition_signal (container_logs d cs) = []"
  by (induction cs) simp_all

lemma map_filter_append:
  "List.map_filter f (xs @ ys) = List.map_filter f xs @ List.map_filter f ys"
  by (simp add: List.map_filter_def)

lemma scaling_logs_cases:
  "scaling_logs d =
     (if Status_Replicas d <s desiredReplicas d then
        [ScalingUpLog (Namespace d) (Name d) (Status_Replicas d) (desiredReplicas d)]
      else if desiredReplicas d <s Status_Replicas d then
        [ScalingDownLog (Namespace d) (Name d) (Status_Replicas d) (desiredReplicas d)]
      else [])"
  by (auto simp: scaling_logs_def Let_def word_sless_alt)

lemma map_filter_condition_types:
  "List.map_filter condition_type_of (map (condition_log d) cs) = map Type cs"
  by (induction cs) (simp_all add: condition_log_def)

section \<open>Reconciling a resource that no longer exists\<close>

text \<open>
  Claim C5. When the fetch of the target deployment reports a not-found error, Reconcile
  returns the empty result (no requeue, no requeue delay) and no error, after logging
  that the deployment was deleted.
\<close>

theorem Reconcile_not_found_is_success:
  assumes "Get r \<lparr>nn_Namespace = nn_Namespace req, nn_Name = nn_Name req\<rparr> = Inl e"
      and "IsNotFound e"
  shows "err (Reconcile r req) = None
       \<and> Requeue (result (Reconcile r req)) = False
       \<and> RequeueAfter (result (Reconcile r req)) = 0
       \<and> logs (Reconcile r req) =
           [ReconcilingLog (nn_Namespace req) (nn_Name req),
            DeletedLog (nn_Namespace req) (nn_Name req)]"
  using assms by (simp add: Reconcile_def IgnoreNotFound_def empty_Result_def)

theorem Reconcile_not_found_is_success_witness:
  "err (Reconcile \<lparr>Get = (\<lambda>k. Inl (StatusError StatusReasonNotFound ''gone''))\<rparr>
          \<lparr>nn_Namespace = ''default'', nn_Name = ''web''\<rparr>) = None
   \<and> Requeue (result (Reconcile \<lparr>Get = (\<lambda>k. Inl (StatusError StatusReasonNotFound ''gone''))\<rparr>
          \<lparr>nn_Namespace = ''default'', nn_Name = ''web''\<rparr>)) = False"
  using Reconcile_not_found_is_success
    [of "\<lparr>Get = (\<lambda>k. Inl (StatusError StatusReasonNotFound ''gone''))\<rparr>"
        "\<lparr>nn_Namespace = ''default'', nn_Name = ''web''\<rparr>"
        "StatusError StatusReasonNotFound ''gone''"]
  by simp

section \<open>Scaling signals\<close>

text \<open>
  Claim C2. Whenever the desired replica count of the snapshot differs from its current
  count, the reconciler emits exactly one scaling signal: scale-up when desired exceeds
  current, scale-down when desired is below current, each carrying the pair (from =
  current, to = desired); when the two counts are equal no scaling signal is emitted.
  The function has no prior snapshot among its inputs, so this holds whatever the prior
  snapshot was, and in particular when it did not show the same drift.
\<close>

theorem logDeploymentEvent_scale_signals:
  "scale_signals (logDeploymentEvent d) =
     (if Status_Replicas d <s desiredReplicas d then
        [ScalingUpLog (Namespace d) (Name d) (Status_Replicas d) (desiredReplicas d)]
      else if desiredReplicas d <s Status_Replicas d then
        [ScalingDownLog (Namespace d) (Name d) (Status_Replicas d) (desiredReplicas d)]
      else [])
   \<and> (Status_Replicas d = desiredReplicas d \<longrightarrow> scale_signals (logDeploymentEvent d) = [])"
proof -
  have "scale_signals (logDeploymentEvent d) = scaling_logs d"
    by (simp add: scale_signals_def logDeploymentEvent_def scale_signals_scaling_logs
        scale_signals_condition_logs scale_signals_container_logs)
  then show ?thesis
    by (simp add: scaling_logs_cases word_sless_alt)
qed

text \<open>
  The specification's example: old = (desired 3, current 3), new = (desired 5, current 3)
  yields exactly the scale-up signal from 3 to 5, and a snapshot with desired = current
  yields no signal.
\<close>

theorem logDeploymentEvent_scale_signals_witness:
  "derived_signals (logDeploymentEvent (example_deployment ''2'' 5 3 [])) =
     [ScalingUpLog ''default'' ''web'' 3 5]
   \<and> scale_signals (logDeploymentEvent (example_deployment ''2'' 5 3 [])) =
     [ScalingUpLog ''default'' ''web'' 3 5]
   \<and> scale_signals (logDeploymentEvent (example_deployment ''2'' 2 4 [])) =
     [ScalingDownLog ''default'' ''web'' 4 2]
   \<and> scale_signals (logDeploymentEvent (example_deployment ''1'' 3 3 [])) = []"
proof -
  have up: "scale_signals (logDeploymentEvent (example_deployment ''2'' 5 3 [])) =
     [ScalingUpLog ''default'' ''web'' 3 5]"
    using logDeploymentEvent_scale_signals [of "example_deployment ''2'' 5 3 []"]
    by (simp add: example_deployment_def desiredReplicas_def word_sless_alt)
  have down: "scale_signals (logDeploymentEvent (example_deployment ''2'' 2 4 [])) =
     [ScalingDownLog ''default'' ''web'' 4 2]"
    using logDeploymentEvent_scale_signals [of "example_deployment ''2'' 2 4 []"]
    by (simp add: example_deployment_def desiredReplicas_def word_sless_alt)
  have same: "scale_signals (logDeploymentEvent (example_deployment ''1'' 3 3 [])) = []"
    using logDeploymentEvent_scale_signals [of "example_deployment ''1'' 3 3 []"]
    by (simp add: example_deployment_def desiredReplicas_def)
  have all: "derived_signals (logDeploymentEvent (example_deployment ''2'' 5 3 [])) =
     [ScalingUpLog ''default'' ''web'' 3 5]"
    by (simp add: derived_signals_def logDeploymentEvent_def example_deployment_def
        scaling_logs_def condition_logs_def desiredReplicas_def word_sless_alt)
  from up down same all show ?thesis by simp
qed

section \<open>Condition signals\<close>

text \<open>
  Claim C4, as the specification states it, fails: the reconciler has no old snapshot
  and reports every condition of the new one. With the old and the new snapshot both
  holding the same Available condition, the specification's rule reports nothing, and
  the reconciler reports the condition.
\<close>

theorem condition_signal_unchanged_counterexample:
  "spec_ConditionChanged_types (example_deployment ''1'' 3 3 [available_condition])
       (example_deployment ''2'' 3 3 [available_condition]) = []
   \<and> condition_signal_types
       (logDeploymentEvent (example_deployment ''2'' 3 3 [available_condition])) =
     [''Available'']"
  by (simp add: spec_ConditionChanged_types_def spec_condition_changed_def
      example_deployment_def available_condition_def condition_signal_types_def
      logDeploymentEvent_def scaling_logs_def condition_logs_def condition_log_def
      desiredReplicas_def)

text \<open>
  Claim C4, amended. For every condition in the status of the snapshot the reconciler
  emits one condition record (type, status, reason, message, last transition), in the
  order of the status, without consulting an older snapshot. Its output matches the
  specification's rule whenever every condition of the new snapshot is newly present or
  differs in (status, reason) from the old one of the same type.
\<close>

theorem logDeploymentEvent_condition_signals:
  "condition_signals (logDeploymentEvent new) =
     map (condition_log new) (Status_Conditions new)
   \<and> condition_signal_types (logDeploymentEvent new) = map Type (Status_Conditions new)
   \<and> ((\<forall>c \<in> set (Status_Conditions new). spec_condition_changed (Status_Conditions old) c)
        \<longrightarrow> condition_signal_types (logDeploymentEvent new) =
            spec_ConditionChanged_types old new)"
proof -
  have sig: "condition_signals (logDeploymentEvent new) = condition_logs new"
    by (simp add: condition_signals_def logDeploymentEvent_def condition_signals_scaling_logs
        condition_signals_condition_logs condition_signals_container_logs)
  have none_scaling: "List.map_filter condition_type_of (scaling_logs new) = []"
    by (simp add: scaling_logs_def Let_def)
  have none_container: "List.map_filter condition_type_of (container_logs new cs) = []" for cs
    by (induction cs) (simp_all add: map_filter_append)
  have types: "condition_signal_types (logDeploymentEvent new) = map Type (Status_Conditions new)"
    by (simp add: condition_signal_types_def logDeploymentEvent_def map_filter_append
        none_scaling none_container condition_logs_def
        map_filter_condition_types)
  have "filter (spec_condition_changed (Status_Conditions old)) (Status_Conditions new) =
          Status_Conditions new"
    if "\<forall>c \<in> set (Status_Conditions new). spec_condition_changed (Status_Conditions old) c"
    using that by (simp add: filter_id_conv)
  with sig types show ?thesis
    by (simp add: condition_logs_def spec_ConditionChanged_types_def)
qed

text \<open>
  The specification's example: the old snapshot has no Available condition, the new one
  has (Available, True, MinimumReplicasAvailable); a single condition record is emitted.
\<close>

theorem logDeploymentEvent_condition_signals_witness:
  "condition_signals (logDeploymentEvent (example_deployment ''2'' 3 3 [available_condition])) =
     [ConditionLog ''default'' ''web'' ''Available'' ''True'' ''MinimumReplicasAvailable''
        ''Deployment has minimum availability.'' 0]
   \<and> spec_ConditionChanged_types (example_deployment ''1'' 3 3 [])
        (example_deployment ''2'' 3 3 [available_condition]) = [''Available'']
   \<and> condition_signal_types
        (logDeploymentEvent (example_deployment ''2'' 3 3 [available_condition])) =
      [''Available'']"
  using logDeploymentEvent_condition_signals
    [of "example_deployment ''2'' 3 3 [available_condition]" "example_deployment ''1'' 3 3 []"]
  by (simp add: example_deployment_def available_condition_def condition_log_def
      spec_condition_changed_def spec_ConditionChanged_types_def)

section \<open>Duplicate deliveries\<close>




section \<open>Informer construction\<close>

text \<open>
  Claim C6. A configuration that asks neither for in-cluster mode nor names a kubeconfig
  path makes the constructor return an error to its caller, without a single call to the
  client libraries and so without any retry. With a method that the environment accepts
  (the in-cluster configuration loads, or the kubeconfig at the given path loads, and the
  client set can be built from it) the constructor returns an informer for the configured
  namespace, its stop channel open and its resync period the configured one, or 30
  seconds when none is configured; each library function is called once.
\<close>

theorem NewDeploymentInformer_auth_method:
  "(\<not> InCluster config \<and> Kubeconfig config = [] \<longrightarrow>
      made (NewDeploymentInformer env config) =
        Inl (ErrorString ''either kubeconfig path or in-cluster mode must be specified'')
      \<and> made_calls (NewDeploymentInformer env config) = [])
   \<and> (InCluster config \<and> InClusterConfig env = Inr kc \<and> NewForConfig env kc = Inr cs \<longrightarrow>
      made (NewDeploymentInformer env config) =
        Inr \<lparr>clientset = cs,
             factory_resync = (if ResyncTime config = 0 then 30 * Second else ResyncTime config),
             factory_namespace = cfg_Namespace config, stopCh_closed = False,
             namespace = cfg_Namespace config\<rparr>
      \<and> made_calls (NewDeploymentInformer env config) =
          [CallInClusterConfig, CallNewForConfig kc])
   \<and> (\<not> InCluster config \<and> Kubeconfig config \<noteq> []
       \<and> BuildConfigFromFlags env [] (Kubeconfig config) = Inr kc
       \<and> NewForConfig env kc = Inr cs \<longrightarrow>
      made (NewDeploymentInformer env config) =
        Inr \<lparr>clientset = cs,
             factory_resync = (if ResyncTime config = 0 then 30 * Second else ResyncTime config),
             factory_namespace = cfg_Namespace config, stopCh_closed = False,
             namespace = cfg_Namespace config\<rparr>
      \<and> made_calls (NewDeploymentInformer env config) =
          [CallBuildConfigFromFlags [] (Kubeconfig config), CallNewForConfig kc])"
  by (simp add: NewDeploymentInformer_def)
theorem NewDeploymentInformer_auth_method_witness:
  "made (NewDeploymentInformer workstation_env (example_config [] False)) =
     Inl (ErrorString ''either kubeconfig path or in-cluster mode must be specified'')
   \<and> made_calls (NewDeploymentInformer workstation_env (example_config [] False)) = []
   \<and> made (NewDeploymentInformer workstation_env
        (example_config ''/home/dev/.kube/config'' False)) =
      Inr \<lparr>clientset = \<lparr>cs_config = \<lparr>Host = ''https://127.0.0.1:6443''\<rparr>\<rparr>,
           factory_resync = 30000000000, factory_namespace = ''default'',
           stopCh_closed = False, namespace = ''default''\<rparr>
   \<and> made (NewDeploymentInformer pod_env (example_config [] True)) =
      Inr \<lparr>clientset = \<lparr>cs_config = \<lparr>Host = ''https://10.96.0.1:443''\<rparr>\<rparr>,
           factory_resync = 30000000000, factory_namespace = ''default'',
           stopCh_closed = False, namespace = ''default''\<rparr>"
proof -
  note none = NewDeploymentInformer_auth_method
    [of "example_config [] False" workstation_env
        "\<lparr>Host = ''https://127.0.0.1:6443''\<rparr>"
        "\<lparr>cs_config = \<lparr>Host = ''https://127.0.0.1:6443''\<rparr>\<rparr>"]
  note kfile = NewDeploymentInformer_auth_method
    [of "example_config ''/home/dev/.kube/config'' False" workstation_env
        "\<lparr>Host = ''https://127.0.0.1:6443''\<rparr>"
        "\<lparr>cs_config = \<lparr>Host = ''https://127.0.0.1:6443''\<rparr>\<rparr>"]
  note pod = NewDeploymentInformer_auth_method
    [of "example_config [] True" pod_env
        "\<lparr>Host = ''https://10.96.0.1:443''\<rparr>"
        "\<lparr>cs_config = \<lparr>Host = ''https://10.96.0.1:443''\<rparr>\<rparr>"]
  have a: "made (NewDeploymentInformer workstation_env (example_config [] False)) =
     Inl (ErrorString ''either kubeconfig path or in-cluster mode must be specified'')
   \<and> made_calls (NewDeploymentInformer workstation_env (example_config [] False)) = []"
    using none by (simp add: example_config_def)
  have b: "made (NewDeploymentInformer workstation_env
        (example_config ''/home/dev/.kube/config'' False)) =
      Inr \<lparr>clientset = \<lparr>cs_config = \<lparr>Host = ''https://127.0.0.1:6443''\<rparr>\<rparr>,
           factory_resync = 30000000000, factory_namespace = ''default'',
           stopCh_closed = False, namespace = ''default''\<rparr>"
    using kfile by (simp add: example_config_def workstation_env_def Second_def)
  have c: "made (NewDeploymentInformer pod_env (example_config [] True)) =
      Inr \<lparr>clientset = \<lparr>cs_config = \<lparr>Host = ''https://10.96.0.1:443''\<rparr>\<rparr>,
           factory_resync = 30000000000, factory_namespace = ''default'',
           stopCh_closed = False, namespace = ''default''\<rparr>"
    using pod by (simp add: example_config_def pod_env_def Second_def)
  from a b c show ?thesis by simp
qed

section \<open>Cache synchronisation at start\<close>

text \<open>
  Claim C7. When the context is cancelled at some instant and the cache has not synced
  by then (it never syncs, or only later), waiting for the cache reports failure and the
  start operation does not go on: the method of \<open>DeploymentInformer\<close> returns the
  error "failed to sync informer cache" to its caller, and the package-level function
  logs the failure and ends the process with exit status 1. Neither waits again.
\<close>

theorem StartDeploymentInformer_sync_failure:
  assumes "cancelled_at env = Some c"
      and "synced_at env = None \<or> (\<exists>s. synced_at env = Some s \<and> c < s)"
      and "add_handler_error env = None"
  shows "start_outcome (DeploymentInformer_StartDeploymentInformer env di) =
           Returned (Some (ErrorString ''failed to sync informer cache''))
       \<and> start_logs (DeploymentInformer_StartDeploymentInformer env di) =
           [StartingInformerLog (namespace di), WaitingForSyncLog]
       \<and> global_outcome (StartDeploymentInformer env listed g) = Exited 1
       \<and> global_logs (StartDeploymentInformer env listed g) =
           [StartingDeploymentInformerLog, SyncFailedLog ''*v1.Deployment'']"
proof -
  from assms(1,2) have w: "WaitForCacheSync env = Some False"
    by (auto simp: WaitForCacheSync_def)
  show ?thesis
    using w assms(3)
    by (simp add: DeploymentInformer_StartDeploymentInformer_def StartDeploymentInformer_def
        factory_WaitForCacheSync_def)
qed

theorem StartDeploymentInformer_sync_failure_witness:
  "cancelled_at \<lparr>synced_at = None, cancelled_at = Some 10, add_handler_error = None\<rparr> = Some 10
   \<and> start_outcome (DeploymentInformer_StartDeploymentInformer
        \<lparr>synced_at = None, cancelled_at = Some 10, add_handler_error = None\<rparr>
        example_informer) =
      Returned (Some (ErrorString ''failed to sync informer cache''))
   \<and> global_outcome (StartDeploymentInformer
        \<lparr>synced_at = None, cancelled_at = Some 10, add_handler_error = None\<rparr>
        [] no_informers) = Exited 1"
  using StartDeploymentInformer_sync_failure
    [of "\<lparr>synced_at = None, cancelled_at = Some 10, add_handler_error = None\<rparr>" 10
        example_informer "[]" no_informers]
  by simp

section \<open>Cached names before the informers run\<close>

text \<open>
  Claim C9. While the package-level deployment informer is nil, GetDeploymentNames
  returns the empty list without a panic; likewise GetPodNames while the pod informer is
  nil. The handler of /deployments then answers status 200 with the body \<open>[]\<close>.
\<close>

theorem names_before_informer_start:
  "(deploymentInformer g = None \<longrightarrow>
      GetDeploymentNames g = Inr []
      \<and> response (handler g requestID ''/deployments'') =
          Inr \<lparr>StatusCode = 200,
               headers = [(''X-Request-ID'', requestID),
                          (''Content-Type'', ''application/json'')],
               body = ''[]''\<rparr>)
   \<and> (podInformer g = None \<longrightarrow> GetPodNames g = Inr [])"
  by (simp add: GetDeploymentNames_def GetPodNames_def handler_def)

theorem names_before_informer_start_witness:
  "deploymentInformer no_informers = None
   \<and> podInformer no_informers = None
   \<and> GetDeploymentNames no_informers = Inr []
   \<and> GetPodNames no_informers = Inr []
   \<and> response (handler no_informers ''req-1'' ''/deployments'') =
       Inr \<lparr>StatusCode = 200,
            headers = [(''X-Request-ID'', ''req-1''), (''Content-Type'', ''application/json'')],
            body = ''[]''\<rparr>"
  using names_before_informer_start [of no_informers "''req-1''"]
  by (simp add: no_informers_def)
section \<open>Kubeconfig path resolution\<close>

lemma split_on_not_empty: "split_on c xs \<noteq> []"
  by (induction xs) (auto split: list.splits)

lemma strings_Join_Cons:
  "es \<noteq> [] \<Longrightarrow> strings_Join (e # es) sep = e @ sep @ strings_Join es sep"
  by (cases es) simp_all

lemma strings_Join_split_on: "strings_Join (split_on c xs) [c] = xs"
proof (induction xs)
  case Nil
  show ?case by simp
next
  case (Cons x xs)
  show ?case
  proof (cases "x = c")
    case True
    with Cons show ?thesis
      by (simp add: strings_Join_Cons split_on_not_empty)
  next
    case False
    obtain w ws where sp: "split_on c xs = w # ws"
      using split_on_not_empty [of c xs] by (cases "split_on c xs") auto
    with Cons have "strings_Join (w # ws) [c] = xs" by simp
    then have "strings_Join ((x # w) # ws) [c] = x # xs"
      by (cases ws) simp_all
    with False sp show ?thesis by simp
  qed
qed

lemma split_on_append_sep:
  "split_on c (xs @ c # ys) = split_on c xs @ split_on c ys"
proof (induction xs)
  case Nil
  show ?case by simp
next
  case (Cons x xs)
  obtain w ws where sp: "split_on c xs = w # ws"
    using split_on_not_empty [of c xs] by (cases "split_on c xs") auto
  with Cons show ?case by simp
qed

lemma clean_elements_plain:
  "list_all plain_element es \<Longrightarrow> clean_elements rooted kept es = rev kept @ es"
  by (induction es arbitrary: kept) (simp_all add: plain_element_def)

lemma strings_Join_append:
  "es \<noteq> [] \<Longrightarrow> fs \<noteq> [] \<Longrightarrow>
   strings_Join (es @ fs) sep = strings_Join es sep @ sep @ strings_Join fs sep"
proof (induction es)
  case Nil
  then show ?case by simp
next
  case (Cons e es)
  show ?case
  proof (cases "es = []")
    case True
    with Cons.prems show ?thesis by (simp add: strings_Join_Cons)
  next
    case False
    with Cons show ?thesis by (simp add: strings_Join_Cons)
  qed
qed

lemma filepath_Join_plain_home:
  assumes "plain_home h"
  shows "filepath_Join [h, ''.kube'', ''config''] = h @ ''/.kube/config''"
proof -
  from assms obtain es where sp: "split_on (CHR ''/'') h = [] # es"
    and ne: "es \<noteq> []" and plain: "list_all plain_element es"
    by (auto simp: plain_home_def split: list.splits)
  have h_eq: "h = ''/'' @ strings_Join es ''/''"
    using strings_Join_split_on [of "CHR ''/''" h] sp ne
    by (simp add: strings_Join_Cons)
  then have h_ne: "h \<noteq> []" and rooted: "hd h = CHR ''/''"
    by auto
  let ?p = "h @ ''/.kube/config''"
  have joined: "strings_Join [h, ''.kube'', ''config''] ''/'' = ?p"
    by simp
  have "split_on (CHR ''/'') ?p = split_on (CHR ''/'') h @ split_on (CHR ''/'') ''.kube/config''"
    using split_on_append_sep [of "CHR ''/''" h "''.kube/config''"] by simp
  then have sp_p: "split_on (CHR ''/'') ?p = [] # (es @ [''.kube'', ''config''])"
    using sp by simp
  have plain': "list_all plain_element (es @ [''.kube'', ''config''])"
    using plain by (simp add: plain_element_def)
  have kept: "clean_elements True [] ([] # (es @ [''.kube'', ''config''])) =
                es @ [''.kube'', ''config'']"
    using clean_elements_plain [OF plain', of True "[]"] by simp
  have out: "strings_Join (es @ [''.kube'', ''config'']) ''/'' =
               strings_Join es ''/'' @ ''/.kube/config''"
    using strings_Join_append [OF ne, of "[''.kube'', ''config'']" "''/''"] by simp
  have "Clean ?p = ''/'' @ strings_Join es ''/'' @ ''/.kube/config''"
    using rooted h_ne sp_p kept out by (simp add: Clean_def Let_def)
  with h_eq joined h_ne show ?thesis by simp
qed

text \<open>
  Claim C10, as stated, fails for the informer's resolver: in in-cluster mode it answers
  the empty string whatever the environment holds, here with KUBECONFIG set and a home
  directory known.
\<close>

theorem getInformerKubeconfigPath_in_cluster_counterexample:
  "Getenv (example_environ ''/etc/kube/admin.conf'' ''/root'') ''KUBECONFIG'' =
     ''/etc/kube/admin.conf''
   \<and> getKubeconfigPath [] (example_environ ''/etc/kube/admin.conf'' ''/root'') =
     ''/etc/kube/admin.conf''
   \<and> getInformerKubeconfigPath True [] (example_environ ''/etc/kube/admin.conf'' ''/root'') = []"
  by (simp add: getInformerKubeconfigPath_def getKubeconfigPath_def Getenv_def
      example_environ_def)

text \<open>
  Claim C10, amended. getKubeconfigPath resolves, for every flag value and environment,
  to the flag when it is non-empty, otherwise to the KUBECONFIG variable when it is
  non-empty, otherwise to the config file under the home directory when HOME is
  non-empty, otherwise to the empty string. getInformerKubeconfigPath resolves to the
  same path when in-cluster mode is off, and to the empty string when it is on. The
  config file under a home directory written the usual way is that directory followed by
  \<open>/.kube/config\<close>.
\<close>

theorem kubeconfig_path_precedence:
  "(flag \<noteq> [] \<longrightarrow> getKubeconfigPath flag env = flag)
   \<and> (flag = [] \<and> Getenv env ''KUBECONFIG'' \<noteq> [] \<longrightarrow>
        getKubeconfigPath flag env = Getenv env ''KUBECONFIG'')
   \<and> (flag = [] \<and> Getenv env ''KUBECONFIG'' = [] \<and> HomeDir env \<noteq> [] \<longrightarrow>
        getKubeconfigPath flag env = filepath_Join [HomeDir env, ''.kube'', ''config''])
   \<and> (flag = [] \<and> Getenv env ''KUBECONFIG'' = [] \<and> HomeDir env = [] \<longrightarrow>
        getKubeconfigPath flag env = [])
   \<and> (\<not> inCluster \<longrightarrow>
        getInformerKubeconfigPath inCluster flag env = getKubeconfigPath flag env)
   \<and> (inCluster \<longrightarrow> getInformerKubeconfigPath inCluster flag env = [])
   \<and> (plain_home (HomeDir env) \<longrightarrow>
        filepath_Join [HomeDir env, ''.kube'', ''config''] = HomeDir env @ ''/.kube/config'')"
  using filepath_Join_plain_home [of "HomeDir env"]
  by (simp add: getKubeconfigPath_def getInformerKubeconfigPath_def)

theorem kubeconfig_path_precedence_witness:
  "getKubeconfigPath ''/tmp/flag.conf'' (example_environ ''/etc/kube/admin.conf'' ''/root'') =
     ''/tmp/flag.conf''
   \<and> getKubeconfigPath [] (example_environ ''/etc/kube/admin.conf'' ''/root'') =
     ''/etc/kube/admin.conf''
   \<and> getKubeconfigPath [] (example_environ [] ''/root'') = ''/root/.kube/config''
   \<and> getKubeconfigPath [] (example_environ [] []) = []
   \<and> getInformerKubeconfigPath False [] (example_environ [] ''/home/dev'') =
     ''/home/dev/.kube/config''
   \<and> getInformerKubeconfigPath True [] (example_environ [] ''/home/dev'') = []"
proof -
  have a: "getKubeconfigPath ''/tmp/flag.conf''
             (example_environ ''/etc/kube/admin.conf'' ''/root'') = ''/tmp/flag.conf''"
    using kubeconfig_path_precedence
      [of "''/tmp/flag.conf''" "example_environ ''/etc/kube/admin.conf'' ''/root''" False]
    by simp
  have b: "getKubeconfigPath [] (example_environ ''/etc/kube/admin.conf'' ''/root'') =
             ''/etc/kube/admin.conf''"
    using kubeconfig_path_precedence
      [of "[]" "example_environ ''/etc/kube/admin.conf'' ''/root''" False]
    by (simp add: Getenv_def example_environ_def)
  have c: "getKubeconfigPath [] (example_environ [] ''/root'') = ''/root/.kube/config''"
    using kubeconfig_path_precedence [of "[]" "example_environ [] ''/root''" False]
    by (simp add: Getenv_def HomeDir_def example_environ_def plain_home_def plain_element_def)
  have d: "getKubeconfigPath [] (example_environ [] []) = []"
    using kubeconfig_path_precedence [of "[]" "example_environ [] []" False]
    by (simp add: Getenv_def HomeDir_def example_environ_def)
  have e: "getInformerKubeconfigPath False [] (example_environ [] ''/home/dev'') =
             ''/home/dev/.kube/config''"
    using kubeconfig_path_precedence [of "[]" "example_environ [] ''/home/dev''" False]
    by (simp add: Getenv_def HomeDir_def example_environ_def plain_home_def plain_element_def)
  have f: "getInformerKubeconfigPath True [] (example_environ [] ''/home/dev'') = []"
    using kubeconfig_path_precedence [of "[]" "example_environ [] ''/home/dev''" True]
    by simp
  from a b c d e f show ?thesis by simp
qed

end
